theory Spec2Isabelle
  imports Main
begin

section \<open>Text\<close>

text \<open>
  A Python \<^verbatim>\<open>str\<close> is modelled as a \<^typ>\<open>string\<close>; a character stands for the code point
  of the same number (U+0000 to U+00FF). \<^verbatim>\<open>str.isspace\<close> is true, in that range, of
  U+0009..U+000D, U+001C..U+0020, U+0085 and U+00A0.
\<close>

definition isspace :: "char \<Rightarrow> bool" where
  "isspace c =
     (let n = (of_char c :: nat)
      in (9 \<le> n \<and> n \<le> 13) \<or> (28 \<le> n \<and> n \<le> 32) \<or> n = 133 \<or> n = 160)"

definition lstrip :: "string \<Rightarrow> string" where
  "lstrip s = dropWhile isspace s"

definition rstrip :: "string \<Rightarrow> string" where
  "rstrip s = rev (dropWhile isspace (rev s))"

text \<open>\<^verbatim>\<open>s.strip()\<close>: whitespace removed at both ends.\<close>

definition strip :: "string \<Rightarrow> string" where
  "strip s = rstrip (lstrip s)"

text \<open>\<^verbatim>\<open>s.startswith(p)\<close>.\<close>

definition startswith :: "string \<Rightarrow> string \<Rightarrow> bool" where
  "startswith s p = (take (length p) s = p)"

section \<open>Errors, values and observable effects\<close>

text \<open>
  Exceptions are values. \<^verbatim>\<open>ValueError\<close> is the only exception the source raises itself
  (with its message); the others are raised by the libraries it calls: decoding a
  response line, opening the query URL, the option parsers, the embedded server and
  the capture tool. \<^verbatim>\<open>SystemExit\<close> carries the exit status.
\<close>

datatype error =
    ValueError string
  | UnicodeDecodeError
  | URLError
  | KeyError string
  | TypeError
  | UsageError
  | SystemExit nat
  | ServerError
  | CaptureToolError

text \<open>
  The Python values the program builds: strings, integers, booleans, lists, and
  dictionaries as association lists in insertion order.
\<close>

datatype pyval =
    PyStr string
  | PyInt int
  | PyBool bool
  | PyList "pyval list"
  | PyDict "(string \<times> pyval) list"

text \<open>
  What a run does to the outside, in order: log records, lines echoed to standard
  output, the HTTP request of \<^verbatim>\<open>lookup\<close>, and the steps of \<^verbatim>\<open>fetch\<close>.
\<close>

datatype event =
    LogInfo string
  | LogWarning string
  | Echo string
  | UrlOpen string
  | MakeDirs string
  | GeventServer pyval string
  | Sleep nat
  | SetProxyDefaultTimestamp string
  | YamlDump string pyval
  | Multi "string list"
  | GeStop

fun echoed :: "event list \<Rightarrow> string list" where
  "echoed [] = []"
| "echoed (Echo s # tr) = s # echoed tr"
| "echoed (_ # tr) = echoed tr"

fun warnings :: "event list \<Rightarrow> string list" where
  "warnings [] = []"
| "warnings (LogWarning s # tr) = s # warnings tr"
| "warnings (_ # tr) = warnings tr"

fun urlopens :: "event list \<Rightarrow> string list" where
  "urlopens [] = []"
| "urlopens (UrlOpen s # tr) = s # urlopens tr"
| "urlopens (_ # tr) = urlopens tr"

section \<open>The lookup command\<close>

text \<open>
  A line of the HTTP response is a byte string; \<^verbatim>\<open>line.decode('utf-8')\<close> either gives
  its text or raises. A line is represented by that outcome.
\<close>

datatype bytes_line = Utf8 string | NotUtf8

fun decode :: "bytes_line \<Rightarrow> error + string" where
  "decode (Utf8 s) = Inr s"
| "decode NotUtf8 = Inl UnicodeDecodeError"

text \<open>
  Lines 123 to 135: the endpoint, the match type and the filter for a source. The
  first component is what is logged on the way.
\<close>

definition select_index :: "string \<Rightarrow> event list \<times> (error + string \<times> string \<times> string)" where
  "select_index source =
     (let matchType = ''prefix'';
          filter_s = ''statuscode:[23]..''
      in if source = ''cc-2025-05'' \<or> source = ''cc'' then
           ([LogWarning ''Common Crawl index is used, which only supports host-level prefix searches. This may take a while...''],
            Inr (''http://index.commoncrawl.org/CC-MAIN-2025-05-index'', ''host'', ''''))
         else if source = ''ia'' then
           ([], Inr (''https://web.archive.org/cdx/search/cdx'', matchType, filter_s))
         else if source = ''live'' then
           ([], Inl (ValueError ''No currently defined method for looking up prefix queries on the live web!''))
         else
           ([], Inl (ValueError ''Unknown source!'')))"

text \<open>Lines 138 to 145: the query parameters, in the dictionary's order.\<close>

definition params :: "string \<Rightarrow> string \<Rightarrow> string \<Rightarrow> (string \<times> pyval) list" where
  "params url matchType filter_s =
     [(''url'', PyStr url),
      (''collapse'', PyStr ''urlkey''),
      (''matchType'', PyStr matchType),
      (''limit'', PyInt 10000),
      (''filter'', PyStr filter_s),
      (''showResumeKey'', PyBool True)]"

text \<open>
  Lines 153 to 162: the loop over the response, with its two variables \<^verbatim>\<open>ended\<close> and
  \<^verbatim>\<open>resumeKey\<close> and the events so far. It returns the events and either the exception
  that left the loop or the final \<^verbatim>\<open>resumeKey\<close>.
\<close>

fun read_lines ::
  "bytes_line list \<Rightarrow> bool \<Rightarrow> string option \<Rightarrow> event list \<Rightarrow> event list \<times> (error + string option)"
where
  "read_lines [] ended resumeKey tr = (tr, Inr resumeKey)"
| "read_lines (line # rest) ended resumeKey tr =
     (if \<not> ended then
        (case decode line of
           Inl e \<Rightarrow> (tr, Inl e)
         | Inr s \<Rightarrow>
             (let cdx = strip s
              in if cdx = '''' then read_lines rest True resumeKey tr
                 else read_lines rest ended resumeKey (tr @ [Echo cdx])))
      else if resumeKey = None then
        (case decode line of
           Inl e \<Rightarrow> (tr, Inl e)
         | Inr s \<Rightarrow> read_lines rest ended (Some (strip s)) tr)
      else read_lines rest ended resumeKey tr)"

text \<open>Lines 164 and 165: the resume key, when there is one, is reported in a warning.\<close>

definition report_resume_key :: "event list \<Rightarrow> string option \<Rightarrow> event list" where
  "report_resume_key tr resumeKey =
     (case resumeKey of
        None \<Rightarrow> tr
      | Some k \<Rightarrow> tr @ [LogWarning (''Use the following resume key for the next query: '' @ k)])"

text \<open>
  The body of \<^verbatim>\<open>lookup\<close>. \<^verbatim>\<open>urllib.parse.urlencode\<close> and \<^verbatim>\<open>urllib.request.urlopen\<close> are
  parameters: the first a function of the parameter list, the second the network, which
  answers a URL with the lines of a response or with an exception.
\<close>

definition lookup ::
  "((string \<times> pyval) list \<Rightarrow> string) \<Rightarrow> (string \<Rightarrow> error + bytes_line list) \<Rightarrow>
   string \<Rightarrow> string \<Rightarrow> event list \<times> (error + unit)"
where
  "lookup urlencode urlopen url source =
     (let tr1 = [LogInfo (''Lookup URLs starting with: '' @ url)]
      in case select_index source of
           (ws, Inl e) \<Rightarrow> (tr1 @ ws, Inl e)
         | (ws, Inr (URL, matchType, filter_s)) \<Rightarrow>
             (let tr2 = tr1 @ ws @ [LogInfo (''Using source: '' @ source)];
                  query_string = urlencode (params url matchType filter_s);
                  full_url = URL @ ''?'' @ query_string;
                  tr3 = tr2 @ [LogInfo (''Full URL: '' @ full_url), UrlOpen full_url]
              in case urlopen full_url of
                   Inl e \<Rightarrow> (tr3, Inl e)
                 | Inr response \<Rightarrow>
                     (case read_lines response False None tr3 of
                        (tr4, Inl e) \<Rightarrow> (tr4, Inl e)
                      | (tr4, Inr resumeKey) \<Rightarrow> (report_resume_key tr4 resumeKey, Inr ()))))"

section \<open>Dictionaries\<close>

text \<open>
  \<^verbatim>\<open>d[k]\<close> and \<^verbatim>\<open>d[k] = v\<close>. Assigning to a key that is present keeps its position;
  a new key goes last.
\<close>

definition getitem :: "pyval \<Rightarrow> string \<Rightarrow> error + pyval" where
  "getitem d k =
     (case d of
        PyDict kvs \<Rightarrow> (case map_of kvs k of None \<Rightarrow> Inl (KeyError k) | Some v \<Rightarrow> Inr v)
      | _ \<Rightarrow> Inl TypeError)"

fun assign :: "(string \<times> pyval) list \<Rightarrow> string \<Rightarrow> pyval \<Rightarrow> (string \<times> pyval) list" where
  "assign [] k v = [(k, v)]"
| "assign ((k', v') # kvs) k v = (if k' = k then (k, v) # kvs else (k', v') # assign kvs k v)"

definition setitem :: "pyval \<Rightarrow> string \<Rightarrow> pyval \<Rightarrow> error + pyval" where
  "setitem d k v =
     (case d of
        PyDict kvs \<Rightarrow> Inr (PyDict (assign kvs k v))
      | _ \<Rightarrow> Inl TypeError)"

text \<open>
  \<^verbatim>\<open>d[a][b][c] = v\<close>: the inner dictionaries are shared objects, so the assignment is
  seen from \<^verbatim>\<open>d\<close>; here the changed dictionaries are written back.
\<close>

definition setitem3 :: "pyval \<Rightarrow> string \<Rightarrow> string \<Rightarrow> string \<Rightarrow> pyval \<Rightarrow> error + pyval" where
  "setitem3 d a b c v =
     (case getitem d a of
        Inl e \<Rightarrow> Inl e
      | Inr da \<Rightarrow>
          (case getitem da b of
             Inl e \<Rightarrow> Inl e
           | Inr db \<Rightarrow>
               (case setitem db c v of
                  Inl e \<Rightarrow> Inl e
                | Inr db' \<Rightarrow>
                    (case setitem da b db' of
                       Inl e \<Rightarrow> Inl e
                     | Inr da' \<Rightarrow> setitem d a da'))))"

section \<open>The embedded Wayback: options and configuration\<close>

definition sources :: "(string \<times> string) list" where
  "sources =
     [(''live'', ''$live''),
      (''ia'', ''memento+https://web.archive.org/web/''),
      (''ia_cdx'', ''cdx+https://web.archive.org/cdx /web'')]"

text \<open>
  \<^verbatim>\<open>self.r\<close>, as far as \<^verbatim>\<open>load\<close> reads it: the two options that \<^verbatim>\<open>_extend_parser\<close> adds.
  The argument list is given as pairs of an option and its value. A source outside
  the choices ends the parser with \<^verbatim>\<open>SystemExit\<close>, status 2.
\<close>

record args =
  r_source :: string
  r_timestamp :: string

definition parse_args :: "(string \<times> string) list \<Rightarrow> error + args" where
  "parse_args argv =
     (let src = (case map_of argv ''--source'' of None \<Rightarrow> ''live'' | Some s \<Rightarrow> s);
          ts = (case map_of argv ''--timestamp'' of None \<Rightarrow> ''19950101000000'' | Some t \<Rightarrow> t)
      in if src \<in> set (map fst sources) then Inr \<lparr>r_source = src, r_timestamp = ts\<rparr>
         else Inl (SystemExit 2))"

text \<open>
  \<^verbatim>\<open>load\<close>, lines 46 to 90: the value of \<^verbatim>\<open>self.extra_config\<close> when the superclass takes
  over. The application the superclass builds from it is represented by this
  configuration.
\<close>

definition load :: "args \<Rightarrow> error + pyval" where
  "load r =
     (let extra_config = PyDict
        [(''collections'', PyDict
            [(''ia'', PyStr ''memento+https://web.archive.org/web/''),
             (''ia_cdx'', PyStr ''cdx+https://web.archive.org/cdx /web''),
             (''live'', PyDict [(''index'', PyStr ''$live'')]),
             (''stack'', PyDict [(''sequence'', PyList [])])]),
         (''recorder'', PyDict
            [(''source_coll'', PyStr ''stack''),
             (''source_filter'', PyStr ''source''),
             (''filename_template'', PyStr ''SLIVER-{timestamp}-{random}.warc.gz'')]),
         (''proxy'', PyDict
            [(''coll'', PyStr ''mementos''),
             (''recording'', PyBool True),
             (''default_timestamp'', PyStr (r_timestamp r))]),
         (''autoindex'', PyInt 10),
         (''enable_auto_fetch'', PyBool True),
         (''enable_wombat'', PyBool True)]
      in if r_source r = ''live'' then
           setitem3 extra_config ''collections'' ''stack'' ''sequence''
             (PyList [PyDict [(''name'', PyStr ''source''), (''index'', PyStr ''$live'')]])
         else
           setitem3 extra_config ''collections'' ''stack'' ''sequence''
             (PyList
                [PyDict
                   [(''archive_paths'', PyStr ''./collections/mementos/archive/''),
                    (''index_paths'', PyStr ''./collections/mementos/indexes''),
                    (''name'', PyStr ''mementos'')],
                 PyDict
                   [(''index'', PyStr ''memento+https://web.archive.org/web/''),
                    (''name'', PyStr ''source'')]]))"

text \<open>Reading the stack back: \<^verbatim>\<open>cfg['collections']['stack']['sequence']\<close>.\<close>

definition stack_sequence :: "pyval \<Rightarrow> error + pyval" where
  "stack_sequence cfg =
     (case getitem cfg ''collections'' of
        Inl e \<Rightarrow> Inl e
      | Inr c \<Rightarrow>
          (case getitem c ''stack'' of
             Inl e \<Rightarrow> Inl e
           | Inr s \<Rightarrow> getitem s ''sequence''))"

text \<open>
  \<^verbatim>\<open>EmbeddedWaybackCli(args=...)\<close>: the constructor inherited from the base class parses
  the arguments and calls \<^verbatim>\<open>load\<close>; its result is \<^verbatim>\<open>embedded.application\<close>.
\<close>

definition EmbeddedWaybackCli :: "(string \<times> string) list \<Rightarrow> error + pyval" where
  "EmbeddedWaybackCli argv =
     (case parse_args argv of
        Inl e \<Rightarrow> Inl e
      | Inr r \<Rightarrow> load r)"

section \<open>The fetch command\<close>

text \<open>
  What the surroundings decide in a run of \<^verbatim>\<open>fetch\<close>: the port of the base class's
  parser (as text), whether \<^verbatim>\<open>embedded.run()\<close> returns or raises, the directory and the
  random part of the temporary file's name, and how the capture tool \<^verbatim>\<open>multi\<close> ends.

  \<^verbatim>\<open>multi\<close> is a command of the command-line library, called on line 219 with a list of
  arguments. Called so, it does not return to its caller: when the batch has been run,
  whatever captures it reported as failed, it leaves with \<^verbatim>\<open>SystemExit\<close> of status 0;
  an error the library reports itself leaves with \<^verbatim>\<open>SystemExit\<close> of another status; any
  other exception of the batch is raised as it is.
\<close>

datatype multi_outcome = Exits nat | Raises

record env =
  port :: string
  run_ok :: bool
  tmp_dir :: string
  tmp_random :: string
  multi_result :: multi_outcome

text \<open>
  The state a run changes: the events so far and the files it has created, each with
  the YAML documents written to it.
\<close>

record world =
  trace :: "event list"
  files :: "string \<rightharpoonup> pyval list"

definition emit :: "event list \<Rightarrow> world \<Rightarrow> world" where
  "emit es w = w\<lparr>trace := trace w @ es\<rparr>"

text \<open>\<^verbatim>\<open>run_gevent\<close>, lines 93 to 101, reached through \<^verbatim>\<open>embedded.run()\<close>.\<close>

definition run_gevent :: "env \<Rightarrow> pyval \<Rightarrow> world \<Rightarrow> world \<times> (error + unit)" where
  "run_gevent env application w =
     (let w1 = emit [LogInfo (''Starting Embedded Gevent Server on '' @ port env)] w
      in if run_ok env then (emit [GeventServer application (port env)] w1, Inr ())
         else (w1, Inl ServerError))"

text \<open>
  \<^verbatim>\<open>tempfile.NamedTemporaryFile(mode="w", prefix=..., suffix=..., delete=...)\<close> creates an
  empty file. Closing it removes the file when \<^verbatim>\<open>delete\<close> is true and leaves it
  otherwise; closing it again changes nothing more.
\<close>

definition NamedTemporaryFile :: "env \<Rightarrow> string \<Rightarrow> string \<Rightarrow> world \<Rightarrow> string \<times> world" where
  "NamedTemporaryFile env prefix suffix w =
     (let name = tmp_dir env @ ''/'' @ prefix @ tmp_random env @ suffix
      in (name, w\<lparr>files := (files w)(name \<mapsto> [])\<rparr>))"

definition yaml_dump :: "pyval \<Rightarrow> string \<Rightarrow> world \<Rightarrow> world" where
  "yaml_dump data name w =
     emit [YamlDump name data]
       (w\<lparr>files := (files w)(name \<mapsto> (case files w name of None \<Rightarrow> [data] | Some docs \<Rightarrow> docs @ [data]))\<rparr>)"

definition close_file :: "bool \<Rightarrow> string \<Rightarrow> world \<Rightarrow> world" where
  "close_file delete name w = (if delete then w\<lparr>files := (files w)(name := None)\<rparr> else w)"

text \<open>
  Lines 190 to 201: the loop that builds \<^verbatim>\<open>shots\<close> from the lines of the URL file.
  \<^verbatim>\<open>filename_for_url\<close> is the function of that name in the capture tool's library, a
  parameter here.
\<close>

fun build_shots :: "(string \<Rightarrow> string) \<Rightarrow> string list \<Rightarrow> pyval list \<Rightarrow> pyval list" where
  "build_shots filename_for_url [] shots = shots"
| "build_shots filename_for_url (line # rest) shots =
     (let url = strip line
      in if url \<noteq> '''' \<and> \<not> startswith url ''#'' then
           build_shots filename_for_url rest
             (shots @
              [PyDict
                 [(''url'', PyStr url),
                  (''output'', PyStr (''collections/mementos/screenshots/'' @ filename_for_url url)),
                  (''wait'', PyInt 15000),
                  (''width'', PyInt 800),
                  (''height'', PyInt 800),
                  (''padding'', PyInt 0)]])
         else build_shots filename_for_url rest shots)"

text \<open>The call \<^verbatim>\<open>multi([...])\<close>: the invocation is an event, and the call ends as \<^typ>\<open>env\<close> says.\<close>

definition multi :: "env \<Rightarrow> string list \<Rightarrow> world \<Rightarrow> world \<times> (error + unit)" where
  "multi env argv w =
     (let w1 = emit [Multi argv] w
      in case multi_result env of
           Exits status \<Rightarrow> (w1, Inl (SystemExit status))
         | Raises \<Rightarrow> (w1, Inl CaptureToolError))"

text \<open>
  The body of \<^verbatim>\<open>fetch\<close>, lines 177 to 223. An exception leaves the function at the call
  that raised it: nothing in the body catches one, and the \<^verbatim>\<open>with\<close> block closes the
  temporary file on the way out. Lines 221 to 223 are the continuation of a call of
  \<^verbatim>\<open>multi\<close> that returns.
\<close>

definition fetch ::
  "env \<Rightarrow> (string \<Rightarrow> string) \<Rightarrow> string list \<Rightarrow> string \<Rightarrow> string \<Rightarrow> world \<times> (error + unit)"
where
  "fetch env filename_for_url url_file source timestamp =
     (let w1 = \<lparr>trace =
                  [LogInfo ''Fetch command executed'',
                   MakeDirs ''collections/mementos/indexes'',
                   MakeDirs ''collections/mementos/archive'',
                   MakeDirs ''collections/mementos/screenshots''],
                files = Map.empty\<rparr>
      in case EmbeddedWaybackCli [(''--source'', source)] of
           Inl e \<Rightarrow> (w1, Inl e)
         | Inr application \<Rightarrow>
             (case run_gevent env application w1 of
                (w2, Inl e) \<Rightarrow> (w2, Inl e)
              | (w2, Inr _) \<Rightarrow>
                  (let w3 = emit [LogInfo ''PyWB started...'', Sleep 3] w2;
                       shots = build_shots filename_for_url url_file [];
                       w4 = emit [SetProxyDefaultTimestamp timestamp] w3;
                       delete = False;
                       (name, w5) = NamedTemporaryFile env ''shots-'' ''.yaml'' w4;
                       w6 = yaml_dump (PyList shots) name w5;
                       w7 = close_file delete name w6
                   in case multi env
                             [''--browser-arg'', ''--ignore-certificate-errors'',
                              ''--browser-arg'', ''--proxy-server=http://localhost:8080'',
                              name] w7 of
                        (w8, Inl e) \<Rightarrow> (close_file delete name w8, Inl e)
                      | (w8, Inr _) \<Rightarrow>
                          (let w9 = close_file delete name w8;
                               w10 = emit [GeStop, LogInfo ''PyWB stopped.''] w9
                           in (w10, Inr ())))))"

text \<open>The steps of a proxy session among the events of a run.\<close>

datatype phase = Started | TimestampSet string | CaptureRun "string list" | Stopped

fun phases :: "event list \<Rightarrow> phase list" where
  "phases [] = []"
| "phases (GeventServer application p # tr) = Started # phases tr"
| "phases (SetProxyDefaultTimestamp t # tr) = TimestampSet t # phases tr"
| "phases (Multi a # tr) = CaptureRun a # phases tr"
| "phases (GeStop # tr) = Stopped # phases tr"
| "phases (_ # tr) = phases tr"

section \<open>The command line\<close>

text \<open>
  The options of lines 106 and 170: \<^verbatim>\<open>--source\<close> is a choice between \<^verbatim>\<open>live\<close> and \<^verbatim>\<open>ia\<close>
  with default \<^verbatim>\<open>live\<close>; \<^verbatim>\<open>--timestamp\<close> is any string, with a default. An option that
  is not given is \<^term>\<open>None\<close>.
\<close>

definition source_option :: "string option \<Rightarrow> error + string" where
  "source_option v =
     (case v of
        None \<Rightarrow> Inr ''live''
      | Some s \<Rightarrow> if s \<in> set [''live'', ''ia''] then Inr s else Inl UsageError)"

definition timestamp_option :: "string option \<Rightarrow> string" where
  "timestamp_option v = (case v of None \<Rightarrow> ''19950101000000'' | Some t \<Rightarrow> t)"

definition fetch_command ::
  "env \<Rightarrow> (string \<Rightarrow> string) \<Rightarrow> string list \<Rightarrow> string option \<Rightarrow> string option \<Rightarrow>
   world \<times> (error + unit)"
where
  "fetch_command env filename_for_url url_file source_arg timestamp_arg =
     (case source_option source_arg of
        Inl e \<Rightarrow> (\<lparr>trace = [], files = Map.empty\<rparr>, Inl e)
      | Inr source \<Rightarrow> fetch env filename_for_url url_file source (timestamp_option timestamp_arg))"

definition lookup_command ::
  "((string \<times> pyval) list \<Rightarrow> string) \<Rightarrow> (string \<Rightarrow> error + bytes_line list) \<Rightarrow>
   string \<Rightarrow> string option \<Rightarrow> event list \<times> (error + unit)"
where
  "lookup_command urlencode urlopen url source_arg =
     (case source_option source_arg of
        Inl e \<Rightarrow> ([], Inl e)
      | Inr source \<Rightarrow> lookup urlencode urlopen url source)"

section \<open>The specification's wording, and example inputs\<close>

text \<open>
  The continuation token as the specification words it: the next non-empty line after
  the first blank line of the response, if there is one.
\<close>

definition spec_continuation_token :: "string list \<Rightarrow> string option" where
  "spec_continuation_token lines =
     (case dropWhile (\<lambda>s. strip s \<noteq> '''') lines of
        [] \<Rightarrow> None
      | blank # after \<Rightarrow>
          (case filter (\<lambda>s. strip s \<noteq> '''') after of
             [] \<Rightarrow> None
           | k # _ \<Rightarrow> Some (strip k)))"

text \<open>
  No persistence configured, as the specification words it for the live mode, where
  recording is to be a no-op: the configuration has no recorder, and its proxy is not
  set to record.
\<close>

definition spec_no_persistence :: "pyval \<Rightarrow> bool" where
  "spec_no_persistence cfg =
     (isl (getitem cfg ''recorder'')
      \<and> (case getitem cfg ''proxy'' of
            Inl e \<Rightarrow> True
          | Inr p \<Rightarrow> getitem p ''recording'' \<noteq> Inr (PyBool True)))"

text \<open>A timestamp as the specification words it: fourteen decimal digits.\<close>

definition isdigit :: "char \<Rightarrow> bool" where
  "isdigit c = (let n = (of_char c :: nat) in 48 \<le> n \<and> n \<le> 57)"

definition spec_timestamp :: "string \<Rightarrow> bool" where
  "spec_timestamp s = (length s = 14 \<and> list_all isdigit s)"

definition example_urlencode :: "(string \<times> pyval) list \<Rightarrow> string" where
  "example_urlencode ps = ''url=example.org''"

definition example_urlopen :: "string list \<Rightarrow> string \<Rightarrow> error + bytes_line list" where
  "example_urlopen lines full_url = Inr (map Utf8 lines)"

definition record_line :: string where
  "record_line = ''org,example)/ 19970101000000 http://example.org/ text/html 200 AAAA 100\<newline>''"

definition two_blank_lines :: "string list" where
  "two_blank_lines = [record_line, ''\<newline>'', ''\<newline>'', ''key\<newline>'']"

definition example_filename_for_url :: "string \<Rightarrow> string" where
  "example_filename_for_url u = filter (\<lambda>c. c \<noteq> CHR ''/'' \<and> c \<noteq> CHR '':'') u @ ''.png''"

definition example_env :: "multi_outcome \<Rightarrow> env" where
  "example_env m =
     \<lparr>port = ''8080'', run_ok = True, tmp_dir = ''/tmp'', tmp_random = ''x1y2z3'', multi_result = m\<rparr>"

section \<open>Properties of lookup\<close>

lemma echoed_append: "echoed (xs @ ys) = echoed xs @ echoed ys"
  by (induction xs rule: echoed.induct) simp_all

lemma warnings_append: "warnings (xs @ ys) = warnings xs @ warnings ys"
  by (induction xs rule: warnings.induct) simp_all

lemma urlopens_append: "urlopens (xs @ ys) = urlopens xs @ urlopens ys"
  by (induction xs rule: urlopens.induct) simp_all

lemma echoed_map_Echo: "echoed (map (Echo \<circ> g) ss) = map g ss"
  by (induction ss) simp_all

lemma warnings_map_Echo: "warnings (map (Echo \<circ> g) ss) = []"
  by (induction ss) simp_all

text \<open>The loop only echoes: it opens no URL and logs no warning.\<close>

lemma urlopens_read_lines:
  "urlopens (fst (read_lines ls ended resumeKey tr)) = urlopens tr"
proof (induction ls arbitrary: ended resumeKey tr)
  case Nil
  show ?case by simp
next
  case (Cons line rest)
  show ?case
    by (cases line) (simp_all add: Cons.IH Let_def urlopens_append)
qed

lemma warnings_read_lines:
  "warnings (fst (read_lines ls ended resumeKey tr)) = warnings tr"
proof (induction ls arbitrary: ended resumeKey tr)
  case Nil
  show ?case by simp
next
  case (Cons line rest)
  show ?case
    by (cases line) (simp_all add: Cons.IH Let_def warnings_append)
qed

lemma urlopens_report: "urlopens (report_resume_key tr k) = urlopens tr"
  by (cases k) (simp_all add: report_resume_key_def urlopens_append)

text \<open>The loop on a response: the records, the blank line, and what follows it.\<close>

lemma read_lines_records:
  "list_all (\<lambda>r. strip r \<noteq> '''') recs \<Longrightarrow>
   read_lines (map Utf8 recs @ ls) False k tr =
   read_lines ls False k (tr @ map (Echo \<circ> strip) recs)"
  by (induction recs arbitrary: tr) simp_all

lemma read_lines_after_key:
  "read_lines ls True (Some k) tr = (tr, Inr (Some k))"
  by (induction ls) simp_all

lemma read_lines_tail:
  "read_lines rest True None tr =
     (tr,
      case rest of
        [] \<Rightarrow> Inr None
      | Utf8 k # _ \<Rightarrow> Inr (Some (strip k))
      | NotUtf8 # _ \<Rightarrow> Inl UnicodeDecodeError)"
  by (simp add: read_lines_after_key split: list.splits bytes_line.splits)

lemma read_lines_response:
  assumes "list_all (\<lambda>r. strip r \<noteq> '''') recs" and "strip blank = ''''"
  shows "read_lines (map Utf8 recs @ Utf8 blank # rest) False None tr =
     (tr @ map (Echo \<circ> strip) recs,
      case rest of
        [] \<Rightarrow> Inr None
      | Utf8 k # _ \<Rightarrow> Inr (Some (strip k))
      | NotUtf8 # _ \<Rightarrow> Inl UnicodeDecodeError)"
  using assms by (simp add: read_lines_records read_lines_tail)

text \<open>A lookup that reaches the network, up to the loop.\<close>

lemma lookup_unfold:
  assumes "select_index source = (ws, Inr (URL, matchType, filter_s))"
    and "full_url = URL @ ''?'' @ urlencode (params url matchType filter_s)"
    and "before = ([LogInfo (''Lookup URLs starting with: '' @ url)] @ ws @
            [LogInfo (''Using source: '' @ source)]) @
            [LogInfo (''Full URL: '' @ full_url), UrlOpen full_url]"
  shows "lookup urlencode urlopen url source =
      (case urlopen full_url of
         Inl e \<Rightarrow> (before, Inl e)
       | Inr response \<Rightarrow>
           (case read_lines response False None before of
              (tr4, Inl e) \<Rightarrow> (tr4, Inl e)
            | (tr4, Inr resumeKey) \<Rightarrow> (report_resume_key tr4 resumeKey, Inr ())))"
  by (simp only: lookup_def Let_def assms prod.case sum.case)

lemma urlopens_lookup:
  assumes "select_index source = (ws, Inr (URL, matchType, filter_s))"
  shows "urlopens (fst (lookup urlencode urlopen url source)) =
           urlopens ws @ [URL @ ''?'' @ urlencode (params url matchType filter_s)]"
proof -
  define full_url where "full_url = URL @ ''?'' @ urlencode (params url matchType filter_s)"
  define tr3 where "tr3 = ([LogInfo (''Lookup URLs starting with: '' @ url)] @ ws @
     [LogInfo (''Using source: '' @ source)]) @
     [LogInfo (''Full URL: '' @ full_url), UrlOpen full_url]"
  have tr3: "urlopens tr3 = urlopens ws @ [full_url]"
    by (simp add: tr3_def urlopens_append)
  note unfold = lookup_unfold [where source = source and ws = ws and URL = URL
      and matchType = matchType and filter_s = filter_s and full_url = full_url
      and urlencode = urlencode and url = url and before = tr3 and urlopen = urlopen,
      OF assms full_url_def tr3_def]
  show ?thesis
  proof (cases "urlopen full_url")
    case (Inl e)
    then show ?thesis using unfold tr3 by (simp add: full_url_def)
  next
    case (Inr response)
    obtain tr4 res where rl: "read_lines response False None tr3 = (tr4, res)"
      by (cases "read_lines response False None tr3")
    have "urlopens tr4 = urlopens tr3"
      using urlopens_read_lines [of response False None tr3] rl by simp
    then show ?thesis
      using unfold Inr rl tr3 by (cases res) (simp_all add: full_url_def urlopens_report)
  qed
qed

lemma warnings_lookup:
  assumes "select_index source = (ws, Inr (URL, matchType, filter_s))"
  shows "take (length (warnings ws)) (warnings (fst (lookup urlencode urlopen url source))) =
           warnings ws"
proof -
  define full_url where "full_url = URL @ ''?'' @ urlencode (params url matchType filter_s)"
  define tr3 where "tr3 = ([LogInfo (''Lookup URLs starting with: '' @ url)] @ ws @
     [LogInfo (''Using source: '' @ source)]) @
     [LogInfo (''Full URL: '' @ full_url), UrlOpen full_url]"
  have tr3: "warnings tr3 = warnings ws"
    by (simp add: tr3_def warnings_append)
  note unfold = lookup_unfold [where source = source and ws = ws and URL = URL
      and matchType = matchType and filter_s = filter_s and full_url = full_url
      and urlencode = urlencode and url = url and before = tr3 and urlopen = urlopen,
      OF assms full_url_def tr3_def]
  show ?thesis
  proof (cases "urlopen full_url")
    case (Inl e)
    then show ?thesis using unfold tr3 by simp
  next
    case (Inr response)
    obtain tr4 res where rl: "read_lines response False None tr3 = (tr4, res)"
      by (cases "read_lines response False None tr3")
    have tr4: "warnings tr4 = warnings ws"
      using warnings_read_lines [of response False None tr3] rl tr3 by simp
    show ?thesis
    proof (cases res)
      case (Inl e)
      then show ?thesis using unfold Inr rl tr4 by simp
    next
      case r: (Inr resumeKey)
      then show ?thesis using unfold Inr rl tr4
        by (cases resumeKey) (simp_all add: report_resume_key_def warnings_append)
    qed
  qed
qed

text \<open>
  C3, as the code has it. A response of record lines (none of them blank), a blank
  line and whatever follows: the lookup echoes the records, stripped, and nothing
  else. The resume key is the line right after the blank line, stripped, whether it is
  empty or not; it is reported in one warning. With no line after the blank line no
  key is reported. A line after the blank line that is not UTF-8 raises.
\<close>

theorem lookup_response:
  assumes "select_index source = (ws, Inr (URL, matchType, filter_s))"
    and "urlopen (URL @ ''?'' @ urlencode (params url matchType filter_s)) =
           Inr (map Utf8 recs @ Utf8 blank # rest)"
    and "list_all (\<lambda>r. strip r \<noteq> '''') recs"
    and "strip blank = ''''"
  shows "echoed (fst (lookup urlencode urlopen url source)) = echoed ws @ map strip recs
    \<and> warnings (fst (lookup urlencode urlopen url source)) =
        warnings ws @
        (case rest of
           [] \<Rightarrow> []
         | Utf8 k # _ \<Rightarrow> [''Use the following resume key for the next query: '' @ strip k]
         | NotUtf8 # _ \<Rightarrow> [])
    \<and> snd (lookup urlencode urlopen url source) =
        (case rest of NotUtf8 # _ \<Rightarrow> Inl UnicodeDecodeError | _ \<Rightarrow> Inr ())"
  using assms
  by (simp add: lookup_def Let_def read_lines_response report_resume_key_def
      echoed_append warnings_append echoed_map_Echo warnings_map_Echo
      split: list.splits bytes_line.splits)

theorem lookup_response_witness:
  "select_index ''ia'' =
     ([], Inr (''https://web.archive.org/cdx/search/cdx'', ''prefix'', ''statuscode:[23]..''))
   \<and> list_all (\<lambda>r. strip r \<noteq> '''') [record_line]
   \<and> strip ''\<newline>'' = ''''
   \<and> echoed (fst (lookup example_urlencode
        (example_urlopen [record_line, ''\<newline>'', ''key\<newline>'']) ''example.org'' ''ia'')) =
       [''org,example)/ 19970101000000 http://example.org/ text/html 200 AAAA 100'']
   \<and> warnings (fst (lookup example_urlencode
        (example_urlopen [record_line, ''\<newline>'', ''key\<newline>'']) ''example.org'' ''ia'')) =
       [''Use the following resume key for the next query: key'']
   \<and> snd (lookup example_urlencode
        (example_urlopen [record_line, ''\<newline>'', ''key\<newline>'']) ''example.org'' ''ia'') = Inr ()"
proof -
  have s: "select_index ''ia'' =
     ([], Inr (''https://web.archive.org/cdx/search/cdx'', ''prefix'', ''statuscode:[23]..''))"
    by (simp add: select_index_def)
  have u: "example_urlopen [record_line, ''\<newline>'', ''key\<newline>'']
             (''https://web.archive.org/cdx/search/cdx'' @ ''?'' @
              example_urlencode (params ''example.org'' ''prefix'' ''statuscode:[23]..'')) =
           Inr (map Utf8 [record_line] @ Utf8 ''\<newline>'' # [Utf8 ''key\<newline>''])"
    by (simp add: example_urlopen_def)
  have r: "strip record_line =
      ''org,example)/ 19970101000000 http://example.org/ text/html 200 AAAA 100''"
    by (simp add: record_line_def strip_def lstrip_def rstrip_def isspace_def)
  have l: "list_all (\<lambda>r. strip r \<noteq> '''') [record_line]"
    by (simp add: r)
  have b: "strip ''\<newline>'' = ''''"
    by (simp add: strip_def lstrip_def rstrip_def isspace_def)
  have k: "strip ''key\<newline>'' = ''key''"
    by (simp add: strip_def lstrip_def rstrip_def isspace_def)
  show ?thesis
    using lookup_response [where source = "''ia''" and ws = "[]"
        and URL = "''https://web.archive.org/cdx/search/cdx''"
        and matchType = "''prefix''" and filter_s = "''statuscode:[23]..''"
        and urlencode = example_urlencode
        and urlopen = "example_urlopen [record_line, ''\<newline>'', ''key\<newline>'']"
        and url = "''example.org''" and recs = "[record_line]"
        and blank = "''\<newline>''" and rest = "[Utf8 ''key\<newline>'']",
        OF s u l b] s l b
    by (simp add: r k)
qed

text \<open>
  C3, as the specification words it, fails on a response with two blank lines before
  the key: the key the lookup reports is the empty second blank line, not the next
  non-empty line.
\<close>

theorem lookup_token_counterexample:
  "warnings (fst (lookup example_urlencode (example_urlopen two_blank_lines)
      ''example.org'' ''ia'')) =
     [''Use the following resume key for the next query: '']
   \<and> spec_continuation_token two_blank_lines = Some ''key''"
  by (simp add: lookup_def select_index_def example_urlopen_def two_blank_lines_def
      record_line_def spec_continuation_token_def report_resume_key_def Let_def
      strip_def lstrip_def rstrip_def isspace_def)

text \<open>
  C4. For every URL, a lookup with source \<^verbatim>\<open>live\<close> raises the \<^verbatim>\<open>ValueError\<close> that says
  the live web has no lookup, after one log record and without opening any URL.
\<close>

theorem lookup_live_unsupported:
  "lookup urlencode urlopen url ''live'' =
     ([LogInfo (''Lookup URLs starting with: '' @ url)],
      Inl (ValueError ''No currently defined method for looking up prefix queries on the live web!''))
   \<and> urlopens (fst (lookup urlencode urlopen url ''live'')) = []"
  by (simp add: lookup_def select_index_def)

text \<open>
  C8. With the Common Crawl index as source (\<^verbatim>\<open>cc\<close> or \<^verbatim>\<open>cc-2025-05\<close>) the one request
  goes to the Common Crawl endpoint with match type \<^verbatim>\<open>host\<close> and an empty filter, and
  the first warning logged is the one about host-level searches. With \<^verbatim>\<open>ia\<close> the one
  request goes to the Internet Archive with match type \<^verbatim>\<open>prefix\<close> and the status-code
  filter.
\<close>

theorem lookup_host_only_source:
  "urlopens (fst (lookup urlencode urlopen url ''cc'')) =
     [''http://index.commoncrawl.org/CC-MAIN-2025-05-index'' @ ''?'' @
      urlencode (params url ''host'' '''')]
   \<and> take 1 (warnings (fst (lookup urlencode urlopen url ''cc''))) =
     [''Common Crawl index is used, which only supports host-level prefix searches. This may take a while...'']
   \<and> urlopens (fst (lookup urlencode urlopen url ''cc-2025-05'')) =
     [''http://index.commoncrawl.org/CC-MAIN-2025-05-index'' @ ''?'' @
      urlencode (params url ''host'' '''')]
   \<and> take 1 (warnings (fst (lookup urlencode urlopen url ''cc-2025-05''))) =
     [''Common Crawl index is used, which only supports host-level prefix searches. This may take a while...'']
   \<and> urlopens (fst (lookup urlencode urlopen url ''ia'')) =
     [''https://web.archive.org/cdx/search/cdx'' @ ''?'' @
      urlencode (params url ''prefix'' ''statuscode:[23]..'')]"
proof -
  have cc: "select_index ''cc'' =
     ([LogWarning ''Common Crawl index is used, which only supports host-level prefix searches. This may take a while...''],
      Inr (''http://index.commoncrawl.org/CC-MAIN-2025-05-index'', ''host'', ''''))"
    by (simp add: select_index_def)
  have cc2: "select_index ''cc-2025-05'' =
     ([LogWarning ''Common Crawl index is used, which only supports host-level prefix searches. This may take a while...''],
      Inr (''http://index.commoncrawl.org/CC-MAIN-2025-05-index'', ''host'', ''''))"
    by (simp add: select_index_def)
  have ia: "select_index ''ia'' =
     ([], Inr (''https://web.archive.org/cdx/search/cdx'', ''prefix'', ''statuscode:[23]..''))"
    by (simp add: select_index_def)
  show ?thesis
    using urlopens_lookup [where urlencode = urlencode and urlopen = urlopen and url = url, OF cc]
      warnings_lookup [where urlencode = urlencode and urlopen = urlopen and url = url, OF cc]
      urlopens_lookup [where urlencode = urlencode and urlopen = urlopen and url = url, OF cc2]
      warnings_lookup [where urlencode = urlencode and urlopen = urlopen and url = url, OF cc2]
      urlopens_lookup [where urlencode = urlencode and urlopen = urlopen and url = url, OF ia]
    by simp
qed

text \<open>
  C9. A source that is none of the four the lookup knows (\<^verbatim>\<open>cc-2025-05\<close>, \<^verbatim>\<open>cc\<close>, \<^verbatim>\<open>ia\<close>,
  \<^verbatim>\<open>live\<close>) raises the \<^verbatim>\<open>ValueError\<close> \<^verbatim>\<open>Unknown source!\<close>, after one log record and
  without opening any URL.
\<close>

theorem lookup_unknown_source:
  assumes "source \<notin> set [''cc-2025-05'', ''cc'', ''ia'', ''live'']"
  shows "lookup urlencode urlopen url source =
     ([LogInfo (''Lookup URLs starting with: '' @ url)], Inl (ValueError ''Unknown source!''))
   \<and> urlopens (fst (lookup urlencode urlopen url source)) = []"
  using assms by (simp add: lookup_def select_index_def)

theorem lookup_unknown_source_witness:
  "''wayback'' \<notin> set [''cc-2025-05'', ''cc'', ''ia'', ''live'']
   \<and> lookup example_urlencode (example_urlopen two_blank_lines) ''example.org'' ''wayback'' =
     ([LogInfo ''Lookup URLs starting with: example.org''], Inl (ValueError ''Unknown source!''))
   \<and> urlopens (fst (lookup example_urlencode (example_urlopen two_blank_lines)
        ''example.org'' ''wayback'')) = []"
proof -
  have h: "''wayback'' \<notin> set [''cc-2025-05'', ''cc'', ''ia'', ''live'']"
    by simp
  show ?thesis
    using lookup_unknown_source [where urlencode = example_urlencode
        and urlopen = "example_urlopen two_blank_lines" and url = "''example.org''", OF h] h
    by simp
qed

text \<open>
  On the command line the source option admits only \<^verbatim>\<open>live\<close> and \<^verbatim>\<open>ia\<close>: any other
  value is refused before the body of \<^verbatim>\<open>lookup\<close> runs, so the Common Crawl branch is
  reached by calling the function, not through the option.
\<close>

lemma lookup_command_choice:
  "lookup_command urlencode urlopen url (Some ''cc'') = ([], Inl UsageError)
   \<and> lookup_command urlencode urlopen url (Some ''ia'') = lookup urlencode urlopen url ''ia''
   \<and> lookup_command urlencode urlopen url None = lookup urlencode urlopen url ''live''"
  by (simp add: lookup_command_def source_option_def)

section \<open>Properties of the configuration\<close>

lemma load_config:
  "load r = Inr (PyDict
     [(''collections'', PyDict
         [(''ia'', PyStr ''memento+https://web.archive.org/web/''),
          (''ia_cdx'', PyStr ''cdx+https://web.archive.org/cdx /web''),
          (''live'', PyDict [(''index'', PyStr ''$live'')]),
          (''stack'', PyDict
             [(''sequence'',
               if r_source r = ''live'' then
                 PyList [PyDict [(''name'', PyStr ''source''), (''index'', PyStr ''$live'')]]
               else
                 PyList
                   [PyDict
                      [(''archive_paths'', PyStr ''./collections/mementos/archive/''),
                       (''index_paths'', PyStr ''./collections/mementos/indexes''),
                       (''name'', PyStr ''mementos'')],
                    PyDict
                      [(''index'', PyStr ''memento+https://web.archive.org/web/''),
                       (''name'', PyStr ''source'')]])])]),
      (''recorder'', PyDict
         [(''source_coll'', PyStr ''stack''),
          (''source_filter'', PyStr ''source''),
          (''filename_template'', PyStr ''SLIVER-{timestamp}-{random}.warc.gz'')]),
      (''proxy'', PyDict
         [(''coll'', PyStr ''mementos''),
          (''recording'', PyBool True),
          (''default_timestamp'', PyStr (r_timestamp r))]),
      (''autoindex'', PyInt 10),
      (''enable_auto_fetch'', PyBool True),
      (''enable_wombat'', PyBool True)])"
  by (simp add: load_def Let_def setitem3_def getitem_def setitem_def)

text \<open>
  C6, as the code has it. The stack that \<^verbatim>\<open>load\<close> configures: for the source \<^verbatim>\<open>live\<close>
  one tier, named \<^verbatim>\<open>source\<close>, whose index is the live web and which has no archive or
  index paths; for every other source two tiers, first the local one (\<^verbatim>\<open>mementos\<close>,
  with its archive and index paths), then the remote index of the Internet Archive.
  Persistence is configured whatever the source: the recorder, which records from the
  collection \<^verbatim>\<open>stack\<close> what the tier named \<^verbatim>\<open>source\<close> answers, and the proxy, which records
  into the collection \<^verbatim>\<open>mementos\<close>.
\<close>

theorem load_stack_and_recording:
  "(case load r of Inl e \<Rightarrow> Inl e | Inr cfg \<Rightarrow> stack_sequence cfg) =
     Inr (if r_source r = ''live'' then
            PyList [PyDict [(''name'', PyStr ''source''), (''index'', PyStr ''$live'')]]
          else
            PyList
              [PyDict
                 [(''archive_paths'', PyStr ''./collections/mementos/archive/''),
                  (''index_paths'', PyStr ''./collections/mementos/indexes''),
                  (''name'', PyStr ''mementos'')],
               PyDict
                 [(''index'', PyStr ''memento+https://web.archive.org/web/''),
                  (''name'', PyStr ''source'')]])
   \<and> (case load r of Inl e \<Rightarrow> Inl e | Inr cfg \<Rightarrow> getitem cfg ''recorder'') =
     Inr (PyDict
       [(''source_coll'', PyStr ''stack''),
        (''source_filter'', PyStr ''source''),
        (''filename_template'', PyStr ''SLIVER-{timestamp}-{random}.warc.gz'')])
   \<and> (case load r of Inl e \<Rightarrow> Inl e | Inr cfg \<Rightarrow> getitem cfg ''proxy'') =
     Inr (PyDict
       [(''coll'', PyStr ''mementos''),
        (''recording'', PyBool True),
        (''default_timestamp'', PyStr (r_timestamp r))])"
  by (simp add: load_config stack_sequence_def getitem_def)

text \<open>
  C6, as the specification words it, fails for the source \<^verbatim>\<open>live\<close>: the stack is the one
  live tier, and the configuration has the recorder and a proxy that records.
\<close>

theorem load_live_persistence_counterexample:
  "(case load \<lparr>r_source = ''live'', r_timestamp = ''19950101000000''\<rparr> of
      Inl e \<Rightarrow> Inl e
    | Inr cfg \<Rightarrow> stack_sequence cfg) =
     Inr (PyList [PyDict [(''name'', PyStr ''source''), (''index'', PyStr ''$live'')]])
   \<and> (case load \<lparr>r_source = ''live'', r_timestamp = ''19950101000000''\<rparr> of
        Inl e \<Rightarrow> Inl e
      | Inr cfg \<Rightarrow> getitem cfg ''recorder'') =
     Inr (PyDict
       [(''source_coll'', PyStr ''stack''),
        (''source_filter'', PyStr ''source''),
        (''filename_template'', PyStr ''SLIVER-{timestamp}-{random}.warc.gz'')])
   \<and> (case load \<lparr>r_source = ''live'', r_timestamp = ''19950101000000''\<rparr> of
        Inl e \<Rightarrow> Inl e
      | Inr cfg \<Rightarrow>
          (case getitem cfg ''proxy'' of
             Inl e \<Rightarrow> Inl e
           | Inr p \<Rightarrow> getitem p ''recording'')) =
     Inr (PyBool True)
   \<and> (case load \<lparr>r_source = ''live'', r_timestamp = ''19950101000000''\<rparr> of
        Inl e \<Rightarrow> False
      | Inr cfg \<Rightarrow> \<not> spec_no_persistence cfg)"
  by (simp add: load_config stack_sequence_def getitem_def spec_no_persistence_def)

section \<open>Properties of fetch\<close>

lemma build_shots_append:
  "build_shots f ls shots =
     shots @
     map (\<lambda>u. PyDict
                [(''url'', PyStr u),
                 (''output'', PyStr (''collections/mementos/screenshots/'' @ f u)),
                 (''wait'', PyInt 15000),
                 (''width'', PyInt 800),
                 (''height'', PyInt 800),
                 (''padding'', PyInt 0)])
       (filter (\<lambda>u. u \<noteq> '''' \<and> \<not> startswith u ''#'') (map strip ls))"
  by (induction ls arbitrary: shots) (simp_all add: Let_def)

text \<open>
  C7. The batch is one job for each line that, stripped, is neither empty nor starts
  with \<^verbatim>\<open>#\<close>, in the order of the input; a job has the stripped line as its URL, the
  screenshot directory followed by \<^verbatim>\<open>filename_for_url\<close> of that URL as its output, and
  the fixed wait, width, height and padding. The four example lines give two jobs.
\<close>

theorem build_shots_jobs:
  "build_shots f ls [] =
     map (\<lambda>u. PyDict
                [(''url'', PyStr u),
                 (''output'', PyStr (''collections/mementos/screenshots/'' @ f u)),
                 (''wait'', PyInt 15000),
                 (''width'', PyInt 800),
                 (''height'', PyInt 800),
                 (''padding'', PyInt 0)])
       (filter (\<lambda>u. u \<noteq> '''' \<and> \<not> startswith u ''#'') (map strip ls))
   \<and> build_shots f [''https://a.example/'', '''', ''# comment'', ''https://b.example/''] [] =
     [PyDict
        [(''url'', PyStr ''https://a.example/''),
         (''output'', PyStr (''collections/mementos/screenshots/'' @ f ''https://a.example/'')),
         (''wait'', PyInt 15000),
         (''width'', PyInt 800),
         (''height'', PyInt 800),
         (''padding'', PyInt 0)],
      PyDict
        [(''url'', PyStr ''https://b.example/''),
         (''output'', PyStr (''collections/mementos/screenshots/'' @ f ''https://b.example/'')),
         (''wait'', PyInt 15000),
         (''width'', PyInt 800),
         (''height'', PyInt 800),
         (''padding'', PyInt 0)]]"
proof
  show "build_shots f ls [] =
     map (\<lambda>u. PyDict
                [(''url'', PyStr u),
                 (''output'', PyStr (''collections/mementos/screenshots/'' @ f u)),
                 (''wait'', PyInt 15000),
                 (''width'', PyInt 800),
                 (''height'', PyInt 800),
                 (''padding'', PyInt 0)])
       (filter (\<lambda>u. u \<noteq> '''' \<and> \<not> startswith u ''#'') (map strip ls))"
    using build_shots_append [of f ls "[]"] by simp
next
  have a: "strip ''https://a.example/'' = ''https://a.example/''"
    by (simp add: strip_def lstrip_def rstrip_def isspace_def)
  have b: "strip ''https://b.example/'' = ''https://b.example/''"
    by (simp add: strip_def lstrip_def rstrip_def isspace_def)
  have c: "strip ''# comment'' = ''# comment''"
    by (simp add: strip_def lstrip_def rstrip_def isspace_def)
  have e: "strip '''' = ''''"
    by (simp add: strip_def lstrip_def rstrip_def)
  show "build_shots f [''https://a.example/'', '''', ''# comment'', ''https://b.example/''] [] =
     [PyDict
        [(''url'', PyStr ''https://a.example/''),
         (''output'', PyStr (''collections/mementos/screenshots/'' @ f ''https://a.example/'')),
         (''wait'', PyInt 15000),
         (''width'', PyInt 800),
         (''height'', PyInt 800),
         (''padding'', PyInt 0)],
      PyDict
        [(''url'', PyStr ''https://b.example/''),
         (''output'', PyStr (''collections/mementos/screenshots/'' @ f ''https://b.example/'')),
         (''wait'', PyInt 15000),
         (''width'', PyInt 800),
         (''height'', PyInt 800),
         (''padding'', PyInt 0)]]"
    by (simp add: a b c e Let_def startswith_def)
qed


text \<open>The run of \<^verbatim>\<open>fetch\<close>, written out for each way it can end.\<close>

lemma EmbeddedWaybackCli_source:
  "EmbeddedWaybackCli [(''--source'', source)] =
     (if source \<in> set (map fst sources)
      then load \<lparr>r_source = source, r_timestamp = ''19950101000000''\<rparr>
      else Inl (SystemExit 2))"
  by (simp add: EmbeddedWaybackCli_def parse_args_def Let_def)

lemma load_total: "\<exists>cfg. load r = Inr cfg"
  by (simp add: load_config)

lemma multi_never_returns: "snd (multi env argv w) \<noteq> Inr u"
  by (simp add: multi_def Let_def split: multi_outcome.splits)

lemma fetch_not_started:
  "EmbeddedWaybackCli [(''--source'', source)] = Inl e \<Longrightarrow>
   fetch env f ls source timestamp =
     (\<lparr>trace =
         [LogInfo ''Fetch command executed'',
          MakeDirs ''collections/mementos/indexes'',
          MakeDirs ''collections/mementos/archive'',
          MakeDirs ''collections/mementos/screenshots''],
       files = Map.empty\<rparr>, Inl e)"
  by (simp add: fetch_def)

lemma fetch_server_fails:
  "EmbeddedWaybackCli [(''--source'', source)] = Inr app \<Longrightarrow> \<not> run_ok env \<Longrightarrow>
   fetch env f ls source timestamp =
     (\<lparr>trace =
         [LogInfo ''Fetch command executed'',
          MakeDirs ''collections/mementos/indexes'',
          MakeDirs ''collections/mementos/archive'',
          MakeDirs ''collections/mementos/screenshots'',
          LogInfo (''Starting Embedded Gevent Server on '' @ port env)],
       files = Map.empty\<rparr>, Inl ServerError)"
  by (simp add: fetch_def run_gevent_def emit_def)

lemma fetch_run:
  "EmbeddedWaybackCli [(''--source'', source)] = Inr app \<Longrightarrow> run_ok env \<Longrightarrow>
   fetch env f ls source timestamp =
     (\<lparr>trace =
         [LogInfo ''Fetch command executed'',
          MakeDirs ''collections/mementos/indexes'',
          MakeDirs ''collections/mementos/archive'',
          MakeDirs ''collections/mementos/screenshots'',
          LogInfo (''Starting Embedded Gevent Server on '' @ port env),
          GeventServer app (port env),
          LogInfo ''PyWB started...'',
          Sleep 3,
          SetProxyDefaultTimestamp timestamp,
          YamlDump (tmp_dir env @ ''/'' @ ''shots-'' @ tmp_random env @ ''.yaml'')
            (PyList (build_shots f ls [])),
          Multi
            [''--browser-arg'', ''--ignore-certificate-errors'',
             ''--browser-arg'', ''--proxy-server=http://localhost:8080'',
             tmp_dir env @ ''/'' @ ''shots-'' @ tmp_random env @ ''.yaml'']],
       files =
         [tmp_dir env @ ''/'' @ ''shots-'' @ tmp_random env @ ''.yaml'' \<mapsto>
            [PyList (build_shots f ls [])]]\<rparr>,
      case multi_result env of
        Exits status \<Rightarrow> Inl (SystemExit status)
      | Raises \<Rightarrow> Inl CaptureToolError)"
  by (simp add: fetch_def run_gevent_def multi_def emit_def NamedTemporaryFile_def
      yaml_dump_def close_file_def Let_def split: multi_outcome.splits)

lemma fetch_cases:
  fixes source :: string and env :: env
  obtains (rejected) "source \<notin> set (map fst sources)"
      "EmbeddedWaybackCli [(''--source'', source)] = Inl (SystemExit 2)"
    | (failed) app where "source \<in> set (map fst sources)" "\<not> run_ok env"
      "EmbeddedWaybackCli [(''--source'', source)] = Inr app"
    | (ran) app where "source \<in> set (map fst sources)" "run_ok env"
      "EmbeddedWaybackCli [(''--source'', source)] = Inr app"
proof (cases "source \<in> set (map fst sources)")
  case False
  then have "EmbeddedWaybackCli [(''--source'', source)] = Inl (SystemExit 2)"
    by (simp only: EmbeddedWaybackCli_source if_False)
  then show ?thesis using False rejected by blast
next
  case True
  obtain app where "load \<lparr>r_source = source, r_timestamp = ''19950101000000''\<rparr> = Inr app"
    using load_total by blast
  then have "EmbeddedWaybackCli [(''--source'', source)] = Inr app"
    using True by (simp only: EmbeddedWaybackCli_source if_True)
  then show ?thesis using True failed ran by (cases "run_ok env") blast+
qed

lemma fetch_outcome:
  "snd (fetch env f ls source timestamp) =
     (if source \<in> set (map fst sources) then
        if run_ok env then
          (case multi_result env of
             Exits status \<Rightarrow> Inl (SystemExit status)
           | Raises \<Rightarrow> Inl CaptureToolError)
        else Inl ServerError
      else Inl (SystemExit 2))"
proof (cases rule: fetch_cases [where source = source and env = env])
  case rejected
  show ?thesis using rejected(1) by (simp add: fetch_not_started [OF rejected(2)])
next
  case (failed app)
  show ?thesis using failed(1) failed(2)
    by (simp add: fetch_server_fails [OF failed(3) failed(2)])
next
  case (ran app)
  show ?thesis using ran(1) ran(2) by (simp add: fetch_run [OF ran(3) ran(2)])
qed

lemma fetch_phases:
  "phases (trace (fst (fetch env f ls source timestamp))) =
     (if source \<in> set (map fst sources) \<and> run_ok env then
        [Started, TimestampSet timestamp,
         CaptureRun
           [''--browser-arg'', ''--ignore-certificate-errors'',
            ''--browser-arg'', ''--proxy-server=http://localhost:8080'',
            tmp_dir env @ ''/'' @ ''shots-'' @ tmp_random env @ ''.yaml'']]
      else [])"
proof (cases rule: fetch_cases [where source = source and env = env])
  case rejected
  have "phases (trace (fst (fetch env f ls source timestamp))) = []"
    by (simp add: fetch_not_started [OF rejected(2)])
  then show ?thesis using rejected(1) by simp
next
  case (failed app)
  have "phases (trace (fst (fetch env f ls source timestamp))) = []"
    by (simp add: fetch_server_fails [OF failed(3) failed(2)])
  then show ?thesis using failed(2) by simp
next
  case (ran app)
  have "phases (trace (fst (fetch env f ls source timestamp))) =
        [Started, TimestampSet timestamp,
         CaptureRun
           [''--browser-arg'', ''--ignore-certificate-errors'',
            ''--browser-arg'', ''--proxy-server=http://localhost:8080'',
            tmp_dir env @ ''/'' @ ''shots-'' @ tmp_random env @ ''.yaml'']]"
    by (simp add: fetch_run [OF ran(3) ran(2)])
  then show ?thesis using ran(1) ran(2) by simp
qed

lemma fetch_files:
  "files (fst (fetch env f ls source timestamp)) =
     (if source \<in> set (map fst sources) \<and> run_ok env then
        [tmp_dir env @ ''/'' @ ''shots-'' @ tmp_random env @ ''.yaml'' \<mapsto>
           [PyList (build_shots f ls [])]]
      else Map.empty)"
proof (cases rule: fetch_cases [where source = source and env = env])
  case rejected
  have "files (fst (fetch env f ls source timestamp)) = Map.empty"
    by (simp add: fetch_not_started [OF rejected(2)])
  then show ?thesis using rejected(1) by simp
next
  case (failed app)
  have "files (fst (fetch env f ls source timestamp)) = Map.empty"
    by (simp add: fetch_server_fails [OF failed(3) failed(2)])
  then show ?thesis using failed(2) by simp
next
  case (ran app)
  have "files (fst (fetch env f ls source timestamp)) =
        [tmp_dir env @ ''/'' @ ''shots-'' @ tmp_random env @ ''.yaml'' \<mapsto>
           [PyList (build_shots f ls [])]]"
    by (simp add: fetch_run [OF ran(3) ran(2)])
  then show ?thesis using ran(1) ran(2) by simp
qed

lemma source_option_sources:
  "source_option source_arg = Inr source \<Longrightarrow> source \<in> set (map fst sources)"
  by (auto simp add: source_option_def sources_def split: option.splits if_splits)

text \<open>
  No run of \<^verbatim>\<open>fetch\<close> reaches line 222: the call of \<^verbatim>\<open>multi\<close> on line 219 never returns,
  and no run ends without an exception.
\<close>

lemma fetch_never_stops:
  "count_list (phases (trace (fst (fetch env f ls source timestamp)))) Stopped = 0
   \<and> snd (fetch env f ls source timestamp) \<noteq> Inr ()"
  by (simp add: fetch_phases fetch_outcome split: multi_outcome.splits)

text \<open>
  C1. The code does not stop the session. In a run with source \<^verbatim>\<open>live\<close> and one URL
  the session is started, the timestamp is set and the capture tool is invoked; the
  tool ends the batch with exit status 0, and \<^verbatim>\<open>fetch\<close> is left with that
  \<^verbatim>\<open>SystemExit\<close> before the stop of line 222: the server is stopped zero times, not once.
  The same holds when the capture tool raises.
\<close>

theorem fetch_stop_missing:
  "phases (trace (fst (fetch (example_env (Exits 0)) example_filename_for_url
      [''https://a.example/''] ''live'' ''19950101000000''))) =
     [Started, TimestampSet ''19950101000000'',
      CaptureRun
        [''--browser-arg'', ''--ignore-certificate-errors'',
         ''--browser-arg'', ''--proxy-server=http://localhost:8080'',
         ''/tmp/shots-x1y2z3.yaml'']]
   \<and> count_list (phases (trace (fst (fetch (example_env (Exits 0)) example_filename_for_url
      [''https://a.example/''] ''live'' ''19950101000000'')))) Stopped = 0
   \<and> snd (fetch (example_env (Exits 0)) example_filename_for_url
      [''https://a.example/''] ''live'' ''19950101000000'') = Inl (SystemExit 0)
   \<and> phases (trace (fst (fetch (example_env Raises) example_filename_for_url
      [''https://a.example/''] ''live'' ''19950101000000''))) =
     [Started, TimestampSet ''19950101000000'',
      CaptureRun
        [''--browser-arg'', ''--ignore-certificate-errors'',
         ''--browser-arg'', ''--proxy-server=http://localhost:8080'',
         ''/tmp/shots-x1y2z3.yaml'']]
   \<and> count_list (phases (trace (fst (fetch (example_env Raises) example_filename_for_url
      [''https://a.example/''] ''live'' ''19950101000000'')))) Stopped = 0
   \<and> snd (fetch (example_env Raises) example_filename_for_url
      [''https://a.example/''] ''live'' ''19950101000000'') = Inl CaptureToolError"
  by (simp add: fetch_phases fetch_outcome example_env_def sources_def)

text \<open>
  C2. The code leaves the job list behind: the temporary file is created with
  \<^verbatim>\<open>delete=False\<close> and nothing removes it. After a run in which the capture tool ended
  the batch with exit status 0, and after one in which it raised, the file is there
  with the job list.
\<close>

theorem fetch_job_list_remains:
  "files (fst (fetch (example_env (Exits 0)) example_filename_for_url
      [''https://a.example/''] ''live'' ''19950101000000'')) ''/tmp/shots-x1y2z3.yaml'' =
     Some [PyList
       [PyDict
          [(''url'', PyStr ''https://a.example/''),
           (''output'', PyStr ''collections/mementos/screenshots/httpsa.example.png''),
           (''wait'', PyInt 15000),
           (''width'', PyInt 800),
           (''height'', PyInt 800),
           (''padding'', PyInt 0)]]]
   \<and> snd (fetch (example_env (Exits 0)) example_filename_for_url
      [''https://a.example/''] ''live'' ''19950101000000'') = Inl (SystemExit 0)
   \<and> files (fst (fetch (example_env Raises) example_filename_for_url
      [''https://a.example/''] ''live'' ''19950101000000'')) ''/tmp/shots-x1y2z3.yaml'' =
     Some [PyList
       [PyDict
          [(''url'', PyStr ''https://a.example/''),
           (''output'', PyStr ''collections/mementos/screenshots/httpsa.example.png''),
           (''wait'', PyInt 15000),
           (''width'', PyInt 800),
           (''height'', PyInt 800),
           (''padding'', PyInt 0)]]]"
proof -
  have a: "strip ''https://a.example/'' = ''https://a.example/''"
    by (simp add: strip_def lstrip_def rstrip_def isspace_def)
  have n: "example_filename_for_url ''https://a.example/'' = ''httpsa.example.png''"
    by (simp add: example_filename_for_url_def)
  have "build_shots example_filename_for_url [''https://a.example/''] [] =
       [PyDict
          [(''url'', PyStr ''https://a.example/''),
           (''output'',
            PyStr (''collections/mementos/screenshots/'' @
                   example_filename_for_url ''https://a.example/'')),
           (''wait'', PyInt 15000),
           (''width'', PyInt 800),
           (''height'', PyInt 800),
           (''padding'', PyInt 0)]]"
    by (simp add: a Let_def startswith_def)
  then have s: "build_shots example_filename_for_url [''https://a.example/''] [] =
       [PyDict
          [(''url'', PyStr ''https://a.example/''),
           (''output'', PyStr ''collections/mementos/screenshots/httpsa.example.png''),
           (''wait'', PyInt 15000),
           (''width'', PyInt 800),
           (''height'', PyInt 800),
           (''padding'', PyInt 0)]]"
    by (simp only: n) simp
  show ?thesis
    by (simp add: fetch_files fetch_outcome example_env_def sources_def s
        del: build_shots.simps)
qed

text \<open>
  C5, as the code has it. The timestamp is not checked. Whatever string is given, the
  way the command ends is decided by the source option, the start of the server and
  the capture tool alone; and whenever the source option is accepted and the server
  starts, the proxy session is started and the string is assigned as it is.
\<close>

theorem fetch_timestamp_unchecked:
  "snd (fetch_command env f ls source_arg (Some timestamp)) =
     (case source_option source_arg of
        Inl e \<Rightarrow> Inl e
      | Inr source \<Rightarrow>
          if run_ok env then
            (case multi_result env of
               Exits status \<Rightarrow> Inl (SystemExit status)
             | Raises \<Rightarrow> Inl CaptureToolError)
          else Inl ServerError)
   \<and> (Started \<in> set (phases (trace (fst (fetch_command env f ls source_arg (Some timestamp))))))
       = (\<not> isl (source_option source_arg) \<and> run_ok env)
   \<and> (TimestampSet timestamp \<in>
        set (phases (trace (fst (fetch_command env f ls source_arg (Some timestamp))))))
       = (\<not> isl (source_option source_arg) \<and> run_ok env)"
proof (cases "source_option source_arg")
  case (Inl e)
  then show ?thesis by (simp add: fetch_command_def)
next
  case (Inr source)
  then have "source \<in> set (map fst sources)"
    by (rule source_option_sources)
  then show ?thesis
    using Inr
    by (simp add: fetch_command_def timestamp_option_def fetch_phases fetch_outcome
        split: multi_outcome.splits)
qed

text \<open>
  C5, as the specification words it, fails for the timestamp \<^verbatim>\<open>1995\<close>: it is not
  fourteen digits, and the run starts the proxy session, assigns the string and
  invokes the capture tool.
\<close>

theorem fetch_malformed_timestamp_counterexample:
  "\<not> spec_timestamp ''1995''
   \<and> take 3 (phases (trace (fst (fetch_command (example_env Raises) example_filename_for_url
        [''https://a.example/''] (Some ''live'') (Some ''1995''))))) =
     [Started, TimestampSet ''1995'',
      CaptureRun
        [''--browser-arg'', ''--ignore-certificate-errors'',
         ''--browser-arg'', ''--proxy-server=http://localhost:8080'',
         ''/tmp/shots-x1y2z3.yaml'']]"
  by (simp add: spec_timestamp_def fetch_command_def source_option_def timestamp_option_def
      fetch_phases example_env_def sources_def)

text \<open>
  C10. Without a timestamp option the timestamp of the run is \<^verbatim>\<open>19950101000000\<close>. In
  every run in which the source option is accepted and the server starts, the first
  three steps of the session are: the server is started, the timestamp of the run is
  assigned as the proxy's default timestamp, the capture tool is invoked.
\<close>

theorem fetch_timestamp_order:
  assumes "run_ok env" and "source_option source_arg = Inr source"
  shows "take 3 (phases (trace (fst (fetch_command env f ls source_arg None)))) =
     [Started, TimestampSet ''19950101000000'',
      CaptureRun
        [''--browser-arg'', ''--ignore-certificate-errors'',
         ''--browser-arg'', ''--proxy-server=http://localhost:8080'',
         tmp_dir env @ ''/'' @ ''shots-'' @ tmp_random env @ ''.yaml'']]
   \<and> take 3 (phases (trace (fst (fetch_command env f ls source_arg (Some timestamp))))) =
     [Started, TimestampSet timestamp,
      CaptureRun
        [''--browser-arg'', ''--ignore-certificate-errors'',
         ''--browser-arg'', ''--proxy-server=http://localhost:8080'',
         tmp_dir env @ ''/'' @ ''shots-'' @ tmp_random env @ ''.yaml'']]"
proof -
  have "source \<in> set (map fst sources)"
    using assms(2) by (rule source_option_sources)
  then show ?thesis
    using assms
    by (simp add: fetch_command_def timestamp_option_def fetch_phases)
qed

theorem fetch_timestamp_order_witness:
  "run_ok (example_env Raises)
   \<and> source_option (Some ''ia'') = Inr ''ia''
   \<and> take 3 (phases (trace (fst (fetch_command (example_env Raises) example_filename_for_url
        [''https://a.example/''] (Some ''ia'') None)))) =
     [Started, TimestampSet ''19950101000000'',
      CaptureRun
        [''--browser-arg'', ''--ignore-certificate-errors'',
         ''--browser-arg'', ''--proxy-server=http://localhost:8080'',
         ''/tmp/shots-x1y2z3.yaml'']]
   \<and> take 3 (phases (trace (fst (fetch_command (example_env Raises) example_filename_for_url
        [''https://a.example/''] (Some ''ia'') (Some ''20200101000000''))))) =
     [Started, TimestampSet ''20200101000000'',
      CaptureRun
        [''--browser-arg'', ''--ignore-certificate-errors'',
         ''--browser-arg'', ''--proxy-server=http://localhost:8080'',
         ''/tmp/shots-x1y2z3.yaml'']]"
proof -
  have r: "run_ok (example_env Raises)"
    by (simp add: example_env_def)
  have s: "source_option (Some ''ia'') = Inr ''ia''"
    by (simp add: source_option_def)
  show ?thesis
    using fetch_timestamp_order [OF r s, of example_filename_for_url "[''https://a.example/'']"
        "''20200101000000''"] r s
    by (simp add: example_env_def)
qed


end
